theory Spec2Isabelle
  imports Complex_Main
begin

section \<open>Values exchanged over HTTP\<close>

text \<open>
  The server (\<^verbatim>\<open>server.js\<close>) answers every request with \<^verbatim>\<open>res.json(...)\<close>, optionally
  after \<^verbatim>\<open>res.status(n)\<close>. A response is therefore an HTTP status with a JavaScript
  object. Objects are association lists in the order of the object literal; a property
  holding \<^verbatim>\<open>undefined\<close> is kept as \<open>JUndefined\<close> (serialisation drops it later).
  Numbers are exact rationals: comparisons agree with JavaScript on every finite number,
  rounding of doubles is not modelled. Strings are byte lists (UTF-8), so a pictogram
  of a literal is a sequence of four bytes.
\<close>

datatype json =
    JUndefined
  | JNull
  | JBool bool
  | JNum rat
  | JStr string
  | JArr "json list"
  | JObj "(string \<times> json) list"

type_synonym response = "nat \<times> json"

definition jnat :: "nat \<Rightarrow> json" where
  "jnat n = JNum (of_nat n)"

definition jopt :: "('a \<Rightarrow> json) \<Rightarrow> 'a option \<Rightarrow> json" where
  "jopt f v = (case v of None \<Rightarrow> JUndefined | Some x \<Rightarrow> f x)"

text \<open>Reading a property \<^verbatim>\<open>o.k\<close>; a missing property reads as \<^verbatim>\<open>undefined\<close>.\<close>

fun get_prop :: "string \<Rightarrow> json \<Rightarrow> json" where
  "get_prop k (JObj fs) = (case map_of fs k of None \<Rightarrow> JUndefined | Some v \<Rightarrow> v)"
| "get_prop k _ = JUndefined"

text \<open>Whether an object has a property of that name at all.\<close>

fun has_prop :: "string \<Rightarrow> json \<Rightarrow> bool" where
  "has_prop k (JObj fs) = (k \<in> set (map fst fs))"
| "has_prop k _ = False"

text \<open>JavaScript truthiness, as used by \<^verbatim>\<open>||\<close>, \<^verbatim>\<open>!\<close> and \<^verbatim>\<open>if\<close>.\<close>

fun truthy :: "json \<Rightarrow> bool" where
  "truthy JUndefined = False"
| "truthy JNull = False"
| "truthy (JBool b) = b"
| "truthy (JNum n) = (n \<noteq> 0)"
| "truthy (JStr s) = (s \<noteq> [])"
| "truthy (JArr _) = True"
| "truthy (JObj _) = True"

text \<open>\<^verbatim>\<open>s || d\<close> for an optional string \<open>s\<close>: absent and empty strings are falsy.\<close>

definition or_default :: "string option \<Rightarrow> string \<Rightarrow> string" where
  "or_default s d = (case s of None \<Rightarrow> d | Some t \<Rightarrow> if t = [] then d else t)"

text \<open>Decimal rendering of a non-negative integer, as a template literal prints it.\<close>

fun dec :: "nat \<Rightarrow> string" where
  "dec n = (if n < 10 then [char_of (48 + n)] else dec (n div 10) @ [char_of (48 + n mod 10)])"

declare dec.simps [simp del]

text \<open>Object spread \<^verbatim>\<open>{...base, ...extra}\<close>: a key of \<open>extra\<close> that \<open>base\<close> already has
  overwrites the value in place, the other keys are appended.\<close>

definition spread :: "(string \<times> json) list \<Rightarrow> (string \<times> json) list \<Rightarrow> (string \<times> json) list" where
  "spread base extra =
     map (\<lambda>(k, v). (k, case map_of extra k of None \<Rightarrow> v | Some w \<Rightarrow> w)) base
     @ filter (\<lambda>(k, v). k \<notin> set (map fst base)) extra"

text \<open>The pictograms of the string literals, in UTF-8.\<close>

definition rocket :: string where
  "rocket = [CHR 0xF0, CHR 0x9F, CHR 0x9A, CHR 0x80]"

definition police_light :: string where
  "police_light = [CHR 0xF0, CHR 0x9F, CHR 0x9A, CHR 0xA8]"

definition bar_chart :: string where
  "bar_chart = [CHR 0xF0, CHR 0x9F, CHR 0x93, CHR 0x8A]"

definition chart_up :: string where
  "chart_up = [CHR 0xF0, CHR 0x9F, CHR 0x93, CHR 0x88]"

definition bullseye :: string where
  "bullseye = [CHR 0xF0, CHR 0x9F, CHR 0x8E, CHR 0xAF]"

section \<open>The subscription registry\<close>

text \<open>
  \<^verbatim>\<open>let subscriptions = []\<close> holds the browser's \<^verbatim>\<open>PushSubscription\<close> objects in insertion
  order. The client (\<^verbatim>\<open>saveSubscription(subscription: PushSubscription)\<close>) sends the
  endpoint as a string; the handlers read \<^verbatim>\<open>endpoint\<close> and \<^verbatim>\<open>keys\<close> only.
  The handlers for subscribing, listing and clearing contain no \<^verbatim>\<open>await\<close>: each is one
  uninterrupted run on the registry it finds. The dispatch handler awaits every send,
  and other handlers run on the same array meanwhile; it is modelled twice below, as
  the run that nothing interrupts and as the run on the shared registry.
\<close>

record subscription =
  endpoint :: string
  expirationTime :: "rat option"
  keys :: "(string \<times> string) list option"

definition subscription_json :: "subscription \<Rightarrow> json" where
  "subscription_json s =
     JObj [(''endpoint'', JStr (endpoint s)),
           (''expirationTime'', (case expirationTime s of None \<Rightarrow> JNull | Some t \<Rightarrow> JNum t)),
           (''keys'', jopt (\<lambda>ks. JObj (map (\<lambda>(k, v). (k, JStr v)) ks)) (keys s))]"

text \<open>\<^verbatim>\<open>Array.prototype.findIndex\<close>: the first index whose element satisfies the test, or -1.\<close>

fun findIndex :: "('a \<Rightarrow> bool) \<Rightarrow> 'a list \<Rightarrow> int" where
  "findIndex P [] = - 1"
| "findIndex P (x # xs) =
     (if P x then 0 else (let r = findIndex P xs in if r < 0 then - 1 else r + 1))"

text \<open>\<^verbatim>\<open>app.post('/api/subscribe')\<close>: the response and the registry afterwards.\<close>

definition subscribe :: "subscription option \<Rightarrow> subscription list \<Rightarrow> response \<times> subscription list" where
  "subscribe body_subscription subscriptions0 =
     (case body_subscription of
        None \<Rightarrow>
          ((400, JObj [(''error'', JStr ''Invalid subscription data''), (''received'', JUndefined)]),
           subscriptions0)
      | Some sub \<Rightarrow>
          if endpoint sub = [] then
            ((400, JObj [(''error'', JStr ''Invalid subscription data''),
                         (''received'', subscription_json sub)]),
             subscriptions0)
          else
            (let existingIndex = findIndex (\<lambda>s. endpoint s = endpoint sub) subscriptions0;
                 subscriptions1 =
                   (if existingIndex \<ge> 0 then subscriptions0[nat existingIndex := sub]
                    else subscriptions0 @ [sub])
             in ((200, JObj [(''success'', JBool True),
                             (''message'', JStr ''Subscription saved successfully''),
                             (''totalSubscriptions'', jnat (length subscriptions1))]),
                 subscriptions1)))"

text \<open>\<^verbatim>\<open>app.get('/api/subscriptions')\<close>.\<close>

definition list_subscriptions :: "subscription list \<Rightarrow> response" where
  "list_subscriptions subscriptions0 =
     (200, JObj [(''count'', jnat (length subscriptions0)),
                 (''subscriptions'',
                  JArr (map (\<lambda>sub. JObj [(''endpoint'', JStr (take 50 (endpoint sub) @ ''...'')),
                                           (''keys'', (case keys sub of
                                                        None \<Rightarrow> JArr []
                                                      | Some ks \<Rightarrow> JArr (map (\<lambda>(k, v). JStr k) ks)))])
                            subscriptions0))])"

text \<open>\<^verbatim>\<open>app.delete('/api/subscriptions')\<close>.\<close>

definition clear_subscriptions :: "subscription list \<Rightarrow> response \<times> subscription list" where
  "clear_subscriptions subscriptions0 =
     (let count = length subscriptions0
      in ((200, JObj [(''success'', JBool True),
                      (''message'', JStr (''Cleared '' @ dec count @ '' subscriptions''))]),
          []))"

section \<open>Dispatch to every subscription\<close>

text \<open>
  \<^verbatim>\<open>webpush.sendNotification\<close> is the external transport. It either resolves with a status
  code or throws an error carrying a message and, for an HTTP failure, a status code.
  The transport is a parameter: its answer may depend on the number of sends made so
  far in this dispatch, on the target and on the payload.
\<close>

datatype send_outcome =
    Delivered int
  | Failed string "int option"

type_synonym transport = "nat \<Rightarrow> subscription \<Rightarrow> json \<Rightarrow> send_outcome"

record dispatch_state =
  subscriptions :: "subscription list"
  results :: "json list"
  successCount :: nat
  failureCount :: nat
  sent_to :: "subscription list"

text \<open>
  The \<^verbatim>\<open>for\<close> loop of \<^verbatim>\<open>app.post('/api/send-notification')\<close> in a run during which no
  other handler touches the registry. The field \<open>sent_to\<close> logs the calls of the
  transport. After a 410 the loop removes the element with \<^verbatim>\<open>splice(i, 1)\<close> and runs
  \<^verbatim>\<open>i--\<close>, which the \<^verbatim>\<open>i++\<close> of the loop header undoes: the next round reads index
  \<open>i\<close> again.
\<close>

definition success_result :: "subscription \<Rightarrow> int \<Rightarrow> json" where
  "success_result sub code =
     JObj [(''subscription'', JStr (take 50 (endpoint sub) @ ''...'')),
           (''success'', JBool True),
           (''statusCode'', JNum (of_int code))]"

definition failure_result :: "subscription \<Rightarrow> string \<Rightarrow> int option \<Rightarrow> json" where
  "failure_result sub msg code =
     JObj [(''subscription'', JStr (take 50 (endpoint sub) @ ''...'')),
           (''success'', JBool False),
           (''error'', JStr msg),
           (''statusCode'', jopt (\<lambda>c. JNum (of_int c)) code)]"

function send_loop :: "transport \<Rightarrow> json \<Rightarrow> nat \<Rightarrow> dispatch_state \<Rightarrow> dispatch_state" where
  "send_loop send payload i st =
     (if i < length (subscriptions st) then
        (let sub = subscriptions st ! i;
             st1 = st\<lparr>sent_to := sent_to st @ [sub]\<rparr>
         in case send (length (sent_to st)) sub payload of
              Delivered code \<Rightarrow>
                send_loop send payload (i + 1)
                  (st1\<lparr>results := results st1 @ [success_result sub code],
                       successCount := successCount st1 + 1\<rparr>)
            | Failed msg code \<Rightarrow>
                (let st2 = st1\<lparr>results := results st1 @ [failure_result sub msg code],
                              failureCount := failureCount st1 + 1\<rparr>
                 in if code = Some 410 then
                      send_loop send payload i
                        (st2\<lparr>subscriptions :=
                               take i (subscriptions st2) @ drop (Suc i) (subscriptions st2)\<rparr>)
                    else send_loop send payload (i + 1) st2))
      else st)"
  by pat_completeness auto
termination
  by (relation "measure (\<lambda>(send, payload, i, st). length (subscriptions st) - i)") auto

declare send_loop.simps [simp del]

text \<open>The payload built before the loop; \<open>now\<close> is the reading of \<^verbatim>\<open>Date.now()\<close>.\<close>

definition push_payload ::
  "nat \<Rightarrow> string option \<Rightarrow> string option \<Rightarrow> string option \<Rightarrow> string option \<Rightarrow> string option
     \<Rightarrow> (string \<times> json) list option \<Rightarrow> json" where
  "push_payload now title body icon badge tag data =
     JObj [(''title'', JStr (or_default title (rocket @ '' React Push Test''))),
           (''body'', JStr (or_default body ''Real push notification from server!'')),
           (''icon'', JStr (or_default icon ''/vite.svg'')),
           (''badge'', JStr (or_default badge ''/vite.svg'')),
           (''tag'', JStr (or_default tag (''server-push-'' @ dec now))),
           (''data'', JObj (spread [(''url'', JStr ''/''),
                                    (''timestamp'', jnat now),
                                    (''source'', JStr ''node-server'')]
                                   (case data of None \<Rightarrow> [] | Some d \<Rightarrow> d))),
           (''requireInteraction'', JBool False),
           (''silent'', JBool False),
           (''vibrate'', JArr [JNum 200, JNum 100, JNum 200]),
           (''actions'', JArr [JObj [(''action'', JStr ''open''), (''title'', JStr ''Open App''),
                                     (''icon'', JStr ''/vite.svg'')],
                               JObj [(''action'', JStr ''dismiss''), (''title'', JStr ''Dismiss'')]])]"

text \<open>\<^verbatim>\<open>app.post('/api/send-notification')\<close> in a run that nothing interrupts: the
  response, the registry afterwards and the targets handed to the transport, in order.\<close>

definition send_notification ::
  "transport \<Rightarrow> nat \<Rightarrow> string option \<Rightarrow> string option \<Rightarrow> string option \<Rightarrow> string option
     \<Rightarrow> string option \<Rightarrow> (string \<times> json) list option \<Rightarrow> subscription list
     \<Rightarrow> response \<times> subscription list \<times> subscription list" where
  "send_notification send now title body icon badge tag data subscriptions0 =
     (if length subscriptions0 = 0 then
        ((400, JObj [(''error'', JStr ''No subscriptions available''),
                     (''hint'', JStr ''Make sure to subscribe first from the web app'')]),
         subscriptions0, [])
      else
        (let payload = push_payload now title body icon badge tag data;
             st = send_loop send payload 0
                    \<lparr>subscriptions = subscriptions0, results = [], successCount = 0,
                     failureCount = 0, sent_to = []\<rparr>
         in ((200, JObj [(''success'', JBool (successCount st > 0)),
                         (''message'', JStr (''Push sent to '' @ dec (successCount st) @ ''/''
                                             @ dec (length (results st)) @ '' subscribers'')),
                         (''results'', JArr (results st)),
                         (''summary'', JObj [(''total'', jnat (length (results st))),
                                             (''successful'', jnat (successCount st)),
                                             (''failed'', jnat (failureCount st))])]),
             subscriptions st, sent_to st)))"

subsection \<open>The dispatch on the shared registry\<close>

text \<open>
  \<^verbatim>\<open>subscriptions\<close> is a variable of the module, and the loop reads it anew in every
  round: \<^verbatim>\<open>subscriptions.length\<close> in the loop test, \<^verbatim>\<open>subscriptions[i]\<close> before the send,
  \<^verbatim>\<open>subscriptions.splice(i, 1)\<close> after a 410. Between the read of the target and the
  answer of the transport lies the \<^verbatim>\<open>await\<close>, the only point at which other handlers
  run (subscribing, clearing, or the loop of another dispatch). Their effect is a
  parameter: \<open>other n\<close> turns the registry as it is when send number \<open>n\<close> starts into
  the registry as it is when the answer arrives. The index \<open>i\<close>, the results and the
  two counters are locals of the handler and stay untouched. \<^verbatim>\<open>splice(i, 1)\<close> at an
  index beyond the end removes nothing.

  Other handlers may add a record during every send, so the loop need not end: the
  first argument bounds the number of rounds, and \<open>None\<close> says that the bound was
  reached.
\<close>

type_synonym interference = "nat \<Rightarrow> subscription list \<Rightarrow> subscription list"

fun send_loop_shared ::
  "nat \<Rightarrow> transport \<Rightarrow> interference \<Rightarrow> json \<Rightarrow> nat \<Rightarrow> dispatch_state
     \<Rightarrow> dispatch_state option" where
  "send_loop_shared 0 send other payload i st = None"
| "send_loop_shared (Suc fuel) send other payload i st =
     (if i < length (subscriptions st) then
        (let sub = subscriptions st ! i;
             n = length (sent_to st);
             st1 = st\<lparr>sent_to := sent_to st @ [sub],
                      subscriptions := other n (subscriptions st)\<rparr>
         in case send n sub payload of
              Delivered code \<Rightarrow>
                send_loop_shared fuel send other payload (i + 1)
                  (st1\<lparr>results := results st1 @ [success_result sub code],
                       successCount := successCount st1 + 1\<rparr>)
            | Failed msg code \<Rightarrow>
                (let st2 = st1\<lparr>results := results st1 @ [failure_result sub msg code],
                              failureCount := failureCount st1 + 1\<rparr>
                 in if code = Some 410 then
                      send_loop_shared fuel send other payload i
                        (st2\<lparr>subscriptions :=
                               take i (subscriptions st2) @ drop (Suc i) (subscriptions st2)\<rparr>)
                    else send_loop_shared fuel send other payload (i + 1) st2))
      else Some st)"

text \<open>The handler on the shared registry: the response, the registry when the handler
  ends and the targets handed to the transport, or \<open>None\<close> when the bound was reached.\<close>

definition send_notification_shared ::
  "nat \<Rightarrow> transport \<Rightarrow> interference \<Rightarrow> nat \<Rightarrow> string option \<Rightarrow> string option
     \<Rightarrow> string option \<Rightarrow> string option \<Rightarrow> string option \<Rightarrow> (string \<times> json) list option
     \<Rightarrow> subscription list \<Rightarrow> (response \<times> subscription list \<times> subscription list) option" where
  "send_notification_shared fuel send other now title body icon badge tag data subscriptions0 =
     (if length subscriptions0 = 0 then
        Some ((400, JObj [(''error'', JStr ''No subscriptions available''),
                          (''hint'', JStr ''Make sure to subscribe first from the web app'')]),
              subscriptions0, [])
      else
        (let payload = push_payload now title body icon badge tag data
         in case send_loop_shared fuel send other payload 0
                   \<lparr>subscriptions = subscriptions0, results = [], successCount = 0,
                    failureCount = 0, sent_to = []\<rparr> of
              None \<Rightarrow> None
            | Some st \<Rightarrow>
                Some ((200, JObj [(''success'', JBool (successCount st > 0)),
                                  (''message'', JStr (''Push sent to '' @ dec (successCount st)
                                                      @ ''/'' @ dec (length (results st))
                                                      @ '' subscribers'')),
                                  (''results'', JArr (results st)),
                                  (''summary'', JObj [(''total'', jnat (length (results st))),
                                                      (''successful'', jnat (successCount st)),
                                                      (''failed'', jnat (failureCount st))])]),
                      subscriptions st, sent_to st)))"

section \<open>Conditional notifications through the vendor's REST interface\<close>

text \<open>
  The three conditional handlers post one request to the vendor with \<^verbatim>\<open>fetch\<close> and read
  the answer with \<^verbatim>\<open>.json()\<close>. The vendor is a parameter: either the call (or the
  parsing) throws an error with a message, or an answer arrives with its \<^verbatim>\<open>ok\<close> flag and
  a JSON object. The inputs have the types the client declares for them
  (\<^verbatim>\<open>sendTradingSignal\<close>, \<^verbatim>\<open>sendPriceAlert\<close>, \<^verbatim>\<open>sendMarketEvent\<close> in \<^verbatim>\<open>api.ts\<close>); an
  optional field is an \<open>option\<close>. Three things come from the JavaScript engine and
  are parameters as well: the text of a number, \<^verbatim>\<open>JSON.stringify\<close> and \<^verbatim>\<open>Date.now()\<close>.
\<close>

datatype fetch_outcome =
    FetchError string
  | FetchReply bool "(string \<times> json) list"

record js_env =
  number_text :: "rat \<Rightarrow> string"
  json_stringify :: "json \<Rightarrow> string"
  date_now :: nat
  fetch :: "json \<Rightarrow> fetch_outcome"

fun join_comma :: "string list \<Rightarrow> string" where
  "join_comma [] = []"
| "join_comma [s] = s"
| "join_comma (s # t # ss) = s @ '','' @ join_comma (t # ss)"

text \<open>What a template literal prints for a value (\<^verbatim>\<open>ToString\<close>).\<close>

fun to_text :: "(rat \<Rightarrow> string) \<Rightarrow> json \<Rightarrow> string" where
  "to_text f JUndefined = ''undefined''"
| "to_text f JNull = ''null''"
| "to_text f (JBool b) = (if b then ''true'' else ''false'')"
| "to_text f (JNum n) = f n"
| "to_text f (JStr s) = s"
| "to_text f (JArr xs) =
     join_comma (map (\<lambda>x. if x = JUndefined \<or> x = JNull then [] else to_text f x) xs)"
| "to_text f (JObj fs) = ''[object Object]''"

text \<open>\<^verbatim>\<open>toUpperCase\<close> and \<^verbatim>\<open>toLowerCase\<close> on the ASCII letters; other bytes stay.\<close>

definition toUpperCase :: "string \<Rightarrow> string" where
  "toUpperCase s =
     map (\<lambda>c. let n = (of_char c :: nat) in if 97 \<le> n \<and> n \<le> 122 then char_of (n - 32) else c) s"

definition toLowerCase :: "string \<Rightarrow> string" where
  "toLowerCase s =
     map (\<lambda>c. let n = (of_char c :: nat) in if 65 \<le> n \<and> n \<le> 90 then char_of (n + 32) else c) s"

text \<open>The fields every payload shares, and the choice of the recipients.\<close>

definition payload_tail :: "(string \<times> json) list" where
  "payload_tail =
     [(''web_url'', JStr ''https://react.signalstrading.app/''),
      (''chrome_web_icon'', JStr ''https://react.signalstrading.app/vite.svg''),
      (''firefox_icon'', JStr ''https://react.signalstrading.app/vite.svg'')]"

definition recipients :: "string option \<Rightarrow> (string \<times> json) list" where
  "recipients userId =
     (case userId of
        None \<Rightarrow> [(''included_segments'', JArr [JStr ''Subscribed Users''])]
      | Some u \<Rightarrow>
          if u \<noteq> [] then [(''include_player_ids'', JArr [JStr u])]
          else [(''included_segments'', JArr [JStr ''Subscribed Users''])])"

text \<open>
  The \<^verbatim>\<open>fetch\<close>, the \<^verbatim>\<open>.json()\<close> and the check of \<^verbatim>\<open>notificationResult.ok\<close>, which the
  three handlers repeat word for word: the message of the error thrown, or the parsed
  answer.
\<close>

definition post_notification :: "js_env \<Rightarrow> json \<Rightarrow> string + (string \<times> json) list" where
  "post_notification env oneSignalPayload =
     (case fetch env oneSignalPayload of
        FetchError msg \<Rightarrow> Inl msg
      | FetchReply ok result \<Rightarrow>
          if \<not> ok then
            Inl (''OneSignal API error: ''
                 @ (if truthy (get_prop ''errors'' (JObj result))
                    then to_text (number_text env) (get_prop ''errors'' (JObj result))
                    else json_stringify env (JObj result)))
          else Inr result)"

text \<open>\<^verbatim>\<open>app.post('/api/trading-signal')\<close>: the response and the payloads posted.\<close>

definition trading_signal ::
  "js_env \<Rightarrow> string \<Rightarrow> rat \<Rightarrow> string \<Rightarrow> rat \<Rightarrow> rat \<Rightarrow> rat \<Rightarrow> string option
     \<Rightarrow> response \<times> json list" where
  "trading_signal env symbol price action confidence stopLoss takeProfit userId =
     (if confidence < 75 then
        ((200, JObj [(''success'', JBool True),
                     (''message'', JStr ''Signal received but confidence too low for notification''),
                     (''notified'', JBool False)]),
         [])
      else
        (let title = bullseye @ '' '' @ toUpperCase action @ '' Signal: '' @ symbol;
             message = symbol @ '' at $'' @ number_text env price
                       @ '' | Confidence: '' @ number_text env confidence
                       @ ''% | SL: $'' @ number_text env stopLoss
                       @ '' | TP: $'' @ number_text env takeProfit;
             notificationData =
               JObj [(''signal'', JObj [(''symbol'', JStr symbol),
                                        (''price'', JNum price),
                                        (''action'', JStr action),
                                        (''confidence'', JNum confidence),
                                        (''stopLoss'', JNum stopLoss),
                                        (''takeProfit'', JNum takeProfit),
                                        (''timestamp'', jnat (date_now env))]),
                     (''url'', JStr (''/signals/'' @ toLowerCase symbol))];
             oneSignalPayload =
               JObj ([(''app_id'', JStr ''f88d5ae4-e766-461f-bf00-90707c1b850e''),
                      (''headings'', JObj [(''en'', JStr title)]),
                      (''contents'', JObj [(''en'', JStr message)]),
                      (''data'', notificationData)]
                     @ payload_tail @ recipients userId)
         in case post_notification env oneSignalPayload of
              Inl msg \<Rightarrow>
                ((500, JObj [(''error'', JStr ''Trading signal notification failed''),
                             (''message'', JStr msg)]),
                 [oneSignalPayload])
            | Inr result \<Rightarrow>
                ((200, JObj [(''success'', JBool True),
                             (''message'', JStr ''Trading signal processed and notification sent''),
                             (''signal'', JObj [(''symbol'', JStr symbol),
                                                (''action'', JStr action),
                                                (''price'', JNum price),
                                                (''confidence'', JNum confidence)]),
                             (''notification'', JObj result),
                             (''notified'', JBool True)]),
                 [oneSignalPayload])))"

text \<open>\<^verbatim>\<open>app.post('/api/price-alert')\<close>. The first definition is the check of the alert
  conditions: \<^verbatim>\<open>shouldAlert\<close> with \<^verbatim>\<open>alertMessage\<close>.\<close>

definition alert_check :: "js_env \<Rightarrow> string \<Rightarrow> rat \<Rightarrow> rat \<Rightarrow> string \<Rightarrow> bool \<times> string" where
  "alert_check env symbol currentPrice targetPrice alertType =
     (if alertType = ''above'' \<and> currentPrice \<ge> targetPrice then
        (True, symbol @ '' reached $'' @ number_text env currentPrice
               @ '' (above target $'' @ number_text env targetPrice @ '')'')
      else if alertType = ''below'' \<and> currentPrice \<le> targetPrice then
        (True, symbol @ '' dropped to $'' @ number_text env currentPrice
               @ '' (below target $'' @ number_text env targetPrice @ '')'')
      else (False, []))"

definition price_alert ::
  "js_env \<Rightarrow> string \<Rightarrow> rat \<Rightarrow> rat \<Rightarrow> string \<Rightarrow> string option \<Rightarrow> response \<times> json list" where
  "price_alert env symbol currentPrice targetPrice alertType userId =
     (let (shouldAlert, alertMessage) = alert_check env symbol currentPrice targetPrice alertType
      in if \<not> shouldAlert then
           ((200, JObj [(''success'', JBool True),
                        (''message'', JStr ''Price checked but alert conditions not met''),
                        (''notified'', JBool False),
                        (''currentPrice'', JNum currentPrice),
                        (''targetPrice'', JNum targetPrice)]),
            [])
         else
           (let title = police_light @ '' Price Alert: '' @ symbol;
                alert = JObj [(''symbol'', JStr symbol),
                              (''currentPrice'', JNum currentPrice),
                              (''targetPrice'', JNum targetPrice),
                              (''alertType'', JStr alertType)];
                oneSignalPayload =
                  JObj ([(''app_id'', JStr ''f88d5ae4-e766-461f-bf00-90707c1b850e''),
                         (''headings'', JObj [(''en'', JStr title)]),
                         (''contents'', JObj [(''en'', JStr alertMessage)]),
                         (''data'', JObj [(''alert'', alert),
                                          (''url'', JStr (''/alerts/'' @ toLowerCase symbol))])]
                        @ payload_tail @ recipients userId)
            in case post_notification env oneSignalPayload of
                 Inl msg \<Rightarrow>
                   ((500, JObj [(''error'', JStr ''Price alert notification failed''),
                                (''message'', JStr msg)]),
                    [oneSignalPayload])
               | Inr result \<Rightarrow>
                   ((200, JObj [(''success'', JBool True),
                                (''message'', JStr ''Price alert triggered and notification sent''),
                                (''alert'', alert),
                                (''notification'', JObj result),
                                (''notified'', JBool True)]),
                    [oneSignalPayload])))"

text \<open>\<^verbatim>\<open>app.post('/api/market-event')\<close>; an absent severity defaults to \<^verbatim>\<open>'normal'\<close>.\<close>

definition market_event ::
  "js_env \<Rightarrow> string \<Rightarrow> string option \<Rightarrow> string \<Rightarrow> string option \<Rightarrow> string option
     \<Rightarrow> response \<times> json list" where
  "market_event env eventType title message severity0 userId =
     (let severity = (case severity0 of None \<Rightarrow> ''normal'' | Some s \<Rightarrow> s)
      in if severity = ''low'' then
           ((200, JObj [(''success'', JBool True),
                        (''message'', JStr ''Event received but severity too low for notification''),
                        (''notified'', JBool False)]),
            [])
         else
           (let eventTitle = or_default title (chart_up @ '' Market Event: '' @ eventType);
                eventIcon = (if severity = ''high'' then police_light else bar_chart);
                oneSignalPayload =
                  JObj ([(''app_id'', JStr ''f88d5ae4-e766-461f-bf00-90707c1b850e''),
                         (''headings'', JObj [(''en'', JStr (eventIcon @ '' '' @ eventTitle))]),
                         (''contents'', JObj [(''en'', JStr message)]),
                         (''data'', JObj [(''event'', JObj [(''eventType'', JStr eventType),
                                                            (''severity'', JStr severity),
                                                            (''timestamp'', jnat (date_now env))]),
                                          (''url'', JStr ''/market-events'')])]
                        @ payload_tail @ recipients userId)
            in case post_notification env oneSignalPayload of
                 Inl msg \<Rightarrow>
                   ((500, JObj [(''error'', JStr ''Market event notification failed''),
                                (''message'', JStr msg)]),
                    [oneSignalPayload])
               | Inr result \<Rightarrow>
                   ((200, JObj [(''success'', JBool True),
                                (''message'', JStr ''Market event processed and notification sent''),
                                (''event'', JObj [(''eventType'', JStr eventType),
                                                  (''severity'', JStr severity)]),
                                (''notification'', JObj result),
                                (''notified'', JBool True)]),
                    [oneSignalPayload])))"

section \<open>The status of the vendor's browser SDK\<close>

text \<open>
  \<^verbatim>\<open>getOneSignalStatus\<close> (\<^verbatim>\<open>utils/oneSignal.ts\<close>, the version that probes the v16
  interface) reads \<^verbatim>\<open>window.OneSignal\<close>. Every method of the SDK may be missing, may
  throw or reject, or may return a value. A call inside a \<^verbatim>\<open>try\<close> block whose method is
  missing throws a \<^verbatim>\<open>TypeError\<close>, so for the two methods that are called without a
  \<^verbatim>\<open>typeof\<close> test a missing method is \<open>Throws\<close> too. The other methods are tested
  first: there \<open>None\<close> says that the method is not a function.
\<close>

datatype 'a call = Throws | Returns 'a

record v16_pushSubscription =
  optedIn :: "bool option"
  getOptedInAsync :: "bool call option"

record v16_PushSubscription =
  id_field :: "string option"
  getIdAsync :: "string option call option"

record v16_User =
  pushSubscription :: "v16_pushSubscription option"
  onesignalId :: "string option"
  PushSubscription :: "v16_PushSubscription option"

record onesignal_sdk =
  isPushNotificationsSupported :: "bool call"
  getNotificationPermission :: "string call"
  User :: "v16_User option"
  isPushNotificationsEnabled :: "bool call option"
  getUserId :: "string option call option"

record onesignal_status =
  isSupported :: bool
  isInitialized :: bool
  isPushSupported :: bool
  notificationPermission :: string
  isSubscribed :: bool
  userId_field :: "string option"

text \<open>The status returned when the SDK is absent and by the outer \<^verbatim>\<open>catch\<close>.\<close>

definition status_unavailable :: onesignal_status where
  "status_unavailable =
     \<lparr>isSupported = False, isInitialized = False, isPushSupported = False,
      notificationPermission = ''default'', isSubscribed = False, userId_field = None\<rparr>"

text \<open>Truthiness of an optional string: \<^verbatim>\<open>undefined\<close> and the empty string are falsy.\<close>

definition truthy_id :: "string option \<Rightarrow> bool" where
  "truthy_id v = (case v of None \<Rightarrow> False | Some u \<Rightarrow> u \<noteq> [])"

text \<open>The third \<^verbatim>\<open>try\<close> block: the subscription flag, \<^verbatim>\<open>false\<close> when nothing is read or
  a call throws.\<close>

definition legacy_enabled :: "onesignal_sdk \<Rightarrow> bool" where
  "legacy_enabled sdk =
     (case isPushNotificationsEnabled sdk of
        None \<Rightarrow> False
      | Some Throws \<Rightarrow> False
      | Some (Returns b) \<Rightarrow> b)"

definition read_isSubscribed :: "onesignal_sdk \<Rightarrow> bool" where
  "read_isSubscribed sdk =
     (case User sdk of
        None \<Rightarrow> legacy_enabled sdk
      | Some u \<Rightarrow>
          (case pushSubscription u of
             None \<Rightarrow> legacy_enabled sdk
           | Some ps \<Rightarrow>
               (case optedIn ps of
                  Some b \<Rightarrow> b
                | None \<Rightarrow>
                    (case getOptedInAsync ps of
                       None \<Rightarrow> False
                     | Some Throws \<Rightarrow> False
                     | Some (Returns b) \<Rightarrow> b))))"

text \<open>The fourth \<^verbatim>\<open>try\<close> block: the user id, \<^verbatim>\<open>undefined\<close> when nothing is read or a
  call throws.\<close>

definition legacy_userId :: "onesignal_sdk \<Rightarrow> string option" where
  "legacy_userId sdk =
     (case getUserId sdk of
        None \<Rightarrow> None
      | Some Throws \<Rightarrow> None
      | Some (Returns v) \<Rightarrow> v)"

definition read_userId :: "onesignal_sdk \<Rightarrow> string option" where
  "read_userId sdk =
     (case User sdk of
        None \<Rightarrow> legacy_userId sdk
      | Some u \<Rightarrow>
          if truthy_id (onesignalId u) then onesignalId u
          else
            (case PushSubscription u of
               None \<Rightarrow> legacy_userId sdk
             | Some p \<Rightarrow>
                 if truthy_id (id_field p) then id_field p
                 else
                   (case getIdAsync p of
                      None \<Rightarrow> legacy_userId sdk
                    | Some Throws \<Rightarrow> None
                    | Some (Returns v) \<Rightarrow> v)))"

text \<open>
  The second argument is the browser's \<^verbatim>\<open>Notification.permission\<close>, \<open>None\<close> where the
  browser has no global \<^verbatim>\<open>Notification\<close>: reading it in the \<^verbatim>\<open>catch\<close> block then throws
  a \<^verbatim>\<open>ReferenceError\<close>, which the outer \<^verbatim>\<open>catch\<close> turns into the unavailable status.
\<close>

definition getOneSignalStatus :: "onesignal_sdk option \<Rightarrow> string option \<Rightarrow> onesignal_status" where
  "getOneSignalStatus window_OneSignal Notification_permission =
     (case window_OneSignal of
        None \<Rightarrow> status_unavailable
      | Some sdk \<Rightarrow>
          (let isPushSupported1 =
                 (case isPushNotificationsSupported sdk of Returns b \<Rightarrow> b | Throws \<Rightarrow> True);
               permission_read =
                 (case getNotificationPermission sdk of
                    Returns p \<Rightarrow> Some p
                  | Throws \<Rightarrow>
                      (case Notification_permission of
                         None \<Rightarrow> None
                       | Some p \<Rightarrow> Some (if p = [] then ''default'' else p)))
           in case permission_read of
                None \<Rightarrow> status_unavailable
              | Some notificationPermission1 \<Rightarrow>
                  (let isSubscribed1 = read_isSubscribed sdk;
                       userId1 = read_userId sdk;
                       isSubscribed2 =
                         (if \<not> isSubscribed1 \<and> truthy_id userId1 then True else isSubscribed1)
                   in \<lparr>isSupported = True, isInitialized = True,
                       isPushSupported = isPushSupported1,
                       notificationPermission = notificationPermission1,
                       isSubscribed = isSubscribed2,
                       userId_field = userId1\<rparr>)))"


section \<open>The dispatch as a list of attempts\<close>

text \<open>
  A second description of the loop, used to state what it computes: the targets in
  order, each with the answer of the transport to the send of that number.
\<close>

fun attempts :: "transport \<Rightarrow> json \<Rightarrow> nat \<Rightarrow> subscription list \<Rightarrow> (subscription \<times> send_outcome) list" where
  "attempts send payload n [] = []"
| "attempts send payload n (s # ss) = (s, send n s payload) # attempts send payload (Suc n) ss"

definition delivered :: "send_outcome \<Rightarrow> bool" where
  "delivered r = (case r of Delivered _ \<Rightarrow> True | Failed _ _ \<Rightarrow> False)"

definition gone :: "send_outcome \<Rightarrow> bool" where
  "gone r = (case r of Delivered _ \<Rightarrow> False | Failed _ code \<Rightarrow> code = Some 410)"

definition result_of :: "subscription \<times> send_outcome \<Rightarrow> json" where
  "result_of a =
     (case snd a of
        Delivered code \<Rightarrow> success_result (fst a) code
      | Failed msg code \<Rightarrow> failure_result (fst a) msg code)"

text \<open>The results and the counters of a state are those of the sends logged in it.\<close>

definition log_agrees :: "transport \<Rightarrow> json \<Rightarrow> dispatch_state \<Rightarrow> bool" where
  "log_agrees send payload st \<longleftrightarrow>
     results st = map result_of (attempts send payload 0 (sent_to st))
     \<and> successCount st = length (filter (\<lambda>a. delivered (snd a)) (attempts send payload 0 (sent_to st)))
     \<and> failureCount st = length (filter (\<lambda>a. \<not> delivered (snd a)) (attempts send payload 0 (sent_to st)))"

section \<open>Example data\<close>

text \<open>Three subscriptions; a transport that delivers to the first and reports every
  other one as gone, and one that reports only the second as gone; two effects of other
  handlers during a dispatch: \<^verbatim>\<open>DELETE /api/subscriptions\<close> arriving while a send is
  pending, and a second dispatch that removes the first record (its own send to that
  record having been answered with 410) while the second send of this dispatch is
  pending; a vendor that accepts or refuses every request; and an SDK whose
  subscription flag cannot be read while its user id can.\<close>

definition example_A :: subscription where
  "example_A = \<lparr>endpoint = ''https://push.example/a'', expirationTime = None,
                 keys = Some [(''p256dh'', ''k1''), (''auth'', ''s1'')]\<rparr>"

definition example_B :: subscription where
  "example_B = \<lparr>endpoint = ''https://push.example/b'', expirationTime = None,
                 keys = Some [(''p256dh'', ''k2''), (''auth'', ''s2'')]\<rparr>"

definition example_transport :: transport where
  "example_transport n sub payload =
     (if endpoint sub = ''https://push.example/a'' then Delivered 201
      else Failed ''Received unexpected response code'' (Some 410))"

definition example_C :: subscription where
  "example_C = \<lparr>endpoint = ''https://push.example/c'', expirationTime = None,
                 keys = Some [(''p256dh'', ''k3''), (''auth'', ''s3'')]\<rparr>"

definition example_only_B_gone :: transport where
  "example_only_B_gone n sub payload =
     (if endpoint sub = ''https://push.example/b''
      then Failed ''Received unexpected response code'' (Some 410)
      else Delivered 201)"


definition example_other_dispatch :: interference where
  "example_other_dispatch n registry = (if n = 1 then drop 1 registry else registry)"

definition example_env :: "bool \<Rightarrow> js_env" where
  "example_env ok =
     \<lparr>number_text = (\<lambda>r. dec (nat \<lfloor>r\<rfloor>)),
      json_stringify = (\<lambda>j. ''{}''),
      date_now = 1000,
      fetch = (\<lambda>payload.
        if ok then FetchReply True [(''id'', JStr ''n-1''), (''recipients'', JNum 1)]
        else FetchReply False [(''errors'', JArr [JStr ''All included players are not subscribed''])])\<rparr>"

definition example_sdk :: onesignal_sdk where
  "example_sdk =
     \<lparr>isPushNotificationsSupported = Returns True,
      getNotificationPermission = Returns ''granted'',
      User = None,
      isPushNotificationsEnabled = Some Throws,
      getUserId = Some (Returns (Some ''0b1c2d3e''))\<rparr>"

section \<open>Auxiliary facts\<close>

lemma digit_chars:
  "char_of (48 :: nat) = CHR ''0''" "char_of (49 :: nat) = CHR ''1''"
  "char_of (50 :: nat) = CHR ''2''" "char_of (51 :: nat) = CHR ''3''"
  "char_of (52 :: nat) = CHR ''4''" "char_of (53 :: nat) = CHR ''5''"
  "char_of (54 :: nat) = CHR ''6''" "char_of (55 :: nat) = CHR ''7''"
  "char_of (56 :: nat) = CHR ''8''" "char_of (57 :: nat) = CHR ''9''"
  by code_simp+

lemma findIndex_none: "(\<forall>x \<in> set xs. \<not> P x) \<Longrightarrow> findIndex P xs = - 1"
  by (induction xs) (auto simp: Let_def)

lemma findIndex_some:
  "\<exists>x \<in> set xs. P x \<Longrightarrow>
     0 \<le> findIndex P xs \<and> nat (findIndex P xs) < length xs \<and> P (xs ! nat (findIndex P xs))
     \<and> (\<forall>j < nat (findIndex P xs). \<not> P (xs ! j))"
proof (induction xs)
  case Nil
  then show ?case by simp
next
  case (Cons x xs)
  show ?case
  proof (cases "P x")
    case True
    then show ?thesis by simp
  next
    case False
    with Cons.prems have ex: "\<exists>x \<in> set xs. P x" by auto
    from Cons.IH [OF ex] have ih: "0 \<le> findIndex P xs" "nat (findIndex P xs) < length xs"
      "P (xs ! nat (findIndex P xs))" "\<forall>j < nat (findIndex P xs). \<not> P (xs ! j)" by auto
    have n: "nat (findIndex P xs + 1) = Suc (nat (findIndex P xs))" using ih(1) by simp
    show ?thesis using False ih n
      by (auto simp: Let_def less_Suc_eq_0_disj)
  qed
qed

lemma subscribe_fresh:
  assumes "endpoint sub \<noteq> []" "\<forall>s \<in> set subs. endpoint s \<noteq> endpoint sub"
  shows "subscribe (Some sub) subs =
           ((200, JObj [(''success'', JBool True),
                        (''message'', JStr ''Subscription saved successfully''),
                        (''totalSubscriptions'', jnat (length subs + 1))]),
            subs @ [sub])"
  using assms findIndex_none [of subs "\<lambda>s. endpoint s = endpoint sub"]
  by (simp add: subscribe_def)

lemma subscribe_existing:
  assumes "endpoint sub \<noteq> []" "\<exists>s \<in> set subs. endpoint s = endpoint sub"
  shows "subscribe (Some sub) subs =
           ((200, JObj [(''success'', JBool True),
                        (''message'', JStr ''Subscription saved successfully''),
                        (''totalSubscriptions'', jnat (length subs))]),
            subs[nat (findIndex (\<lambda>s. endpoint s = endpoint sub) subs) := sub])"
  using assms findIndex_some [of subs "\<lambda>s. endpoint s = endpoint sub"]
  by (simp add: subscribe_def Let_def)

lemma subscribe_distinct:
  assumes "distinct (map endpoint subs)"
  shows "distinct (map endpoint (snd (subscribe body_subscription subs)))"
proof (cases body_subscription)
  case None
  then show ?thesis using assms by (simp add: subscribe_def)
next
  case (Some sub)
  show ?thesis
  proof (cases "endpoint sub = []")
    case True
    then show ?thesis using assms Some by (simp add: subscribe_def)
  next
    case ne: False
    show ?thesis
    proof (cases "\<exists>s \<in> set subs. endpoint s = endpoint sub")
      case True
      let ?k = "nat (findIndex (\<lambda>s. endpoint s = endpoint sub) subs)"
      have k: "?k < length subs" "endpoint (subs ! ?k) = endpoint sub"
        using findIndex_some [OF True] by auto
      have "map endpoint (subs[?k := sub]) = map endpoint subs"
        using k by (simp add: map_update list_update_same_conv)
      then show ?thesis
        using assms Some subscribe_existing [OF ne True] by simp
    next
      case False
      then have f: "\<forall>s \<in> set subs. endpoint s \<noteq> endpoint sub" by simp
      then show ?thesis
        using assms Some subscribe_fresh [OF ne f] by auto
    qed
  qed
qed

lemma send_loop_attempts:
  "send_loop send payload i st =
     (let as = attempts send payload (length (sent_to st)) (drop i (subscriptions st))
      in \<lparr>subscriptions = take i (subscriptions st) @ map fst (filter (\<lambda>a. \<not> gone (snd a)) as),
          results = results st @ map result_of as,
          successCount = successCount st + length (filter (\<lambda>a. delivered (snd a)) as),
          failureCount = failureCount st + length (filter (\<lambda>a. \<not> delivered (snd a)) as),
          sent_to = sent_to st @ map fst as\<rparr>)"
proof (induction send payload i st rule: send_loop.induct)
  case (1 send payload i st)
  show ?case
  proof (cases "i < length (subscriptions st)")
    case False
    then show ?thesis
      by (subst send_loop.simps) simp
  next
    case True
    define sub where "sub = subscriptions st ! i"
    have dr: "drop i (subscriptions st) = sub # drop (Suc i) (subscriptions st)"
      using True by (simp add: sub_def Cons_nth_drop_Suc)
    have tk: "take (Suc i) (subscriptions st) = take i (subscriptions st) @ [sub]"
      using True by (simp add: sub_def take_Suc_conv_app_nth)
    show ?thesis
    proof (cases "send (length (sent_to st)) sub payload")
      case (Delivered code)
      show ?thesis
        apply (subst send_loop.simps)
        using True Delivered dr tk "1.IH"(1) [OF True sub_def refl Delivered]
        apply (simp add: Let_def sub_def [symmetric] delivered_def gone_def result_of_def)
        done
    next
      case (Failed msg code)
      show ?thesis
      proof (cases "code = Some 410")
        case True410: True
        show ?thesis
          apply (subst send_loop.simps)
          using True Failed True410 dr tk "1.IH"(2) [OF True sub_def refl Failed refl True410]
          apply (simp add: Let_def sub_def [symmetric] delivered_def gone_def result_of_def)
          done
      next
        case False
        show ?thesis
          apply (subst send_loop.simps)
          using True Failed False dr tk "1.IH"(3) [OF True sub_def refl Failed refl False]
          apply (simp add: Let_def sub_def [symmetric] delivered_def gone_def result_of_def)
          done
      qed
    qed
  qed
qed

lemma length_attempts: "length (attempts send payload n ss) = length ss"
  by (induction ss arbitrary: n) auto

lemma map_fst_attempts: "map fst (attempts send payload n ss) = ss"
  by (induction ss arbitrary: n) auto

lemma nth_attempts:
  "k < length ss \<Longrightarrow> attempts send payload n ss ! k = (ss ! k, send (n + k) (ss ! k) payload)"
proof (induction ss arbitrary: n k)
  case Nil
  then show ?case by simp
next
  case (Cons s ss)
  then show ?case by (cases k) auto
qed


lemma attempts_ex:
  "(\<exists>a \<in> set (attempts send payload 0 subs). Q (snd a))
     \<longleftrightarrow> (\<exists>k < length subs. Q (send k (subs ! k) payload))"
proof
  assume "\<exists>a \<in> set (attempts send payload 0 subs). Q (snd a)"
  then obtain a where a: "a \<in> set (attempts send payload 0 subs)" "Q (snd a)" by blast
  then obtain k where k: "k < length subs" "attempts send payload 0 subs ! k = a"
    by (auto simp: in_set_conv_nth length_attempts)
  with a nth_attempts [of k subs send payload 0] show "\<exists>k < length subs. Q (send k (subs ! k) payload)"
    by auto
next
  assume "\<exists>k < length subs. Q (send k (subs ! k) payload)"
  then obtain k where k: "k < length subs" "Q (send k (subs ! k) payload)" by blast
  then have "attempts send payload 0 subs ! k \<in> set (attempts send payload 0 subs)"
    by (simp add: length_attempts)
  with k nth_attempts [of k subs send payload 0]
  show "\<exists>a \<in> set (attempts send payload 0 subs). Q (snd a)"
    by force
qed

lemma send_notification_nonempty:
  assumes "subs \<noteq> []"
  shows "send_notification send now title body icon badge tag data subs =
     (let as = attempts send (push_payload now title body icon badge tag data) 0 subs;
          rs = map result_of as;
          sc = length (filter (\<lambda>a. delivered (snd a)) as);
          fc = length (filter (\<lambda>a. \<not> delivered (snd a)) as)
      in ((200, JObj [(''success'', JBool (0 < sc)),
                      (''message'', JStr (''Push sent to '' @ dec sc @ ''/'' @ dec (length rs)
                                          @ '' subscribers'')),
                      (''results'', JArr rs),
                      (''summary'', JObj [(''total'', jnat (length rs)),
                                          (''successful'', jnat sc),
                                          (''failed'', jnat fc)])]),
          map fst (filter (\<lambda>a. \<not> gone (snd a)) as), subs))"
  using assms
  by (simp add: send_notification_def send_loop_attempts Let_def map_fst_attempts)

lemma registry_after_dispatch:
  assumes "subs \<noteq> []"
  shows "fst (snd (send_notification send now title body icon badge tag data subs)) =
           map fst (filter (\<lambda>a. \<not> gone (snd a))
                      (attempts send (push_payload now title body icon badge tag data) 0 subs))"
  using send_notification_nonempty [OF assms] by (simp add: Let_def)

lemma kept_subset:
  "set (map fst (filter Q (attempts send payload n ss))) \<subseteq> set ss"
  by (induction ss arbitrary: n) auto

lemma kept_distinct:
  "distinct (map endpoint ss) \<Longrightarrow>
     distinct (map endpoint (map fst (filter Q (attempts send payload n ss))))"
proof (induction ss arbitrary: n)
  case Nil
  then show ?case by simp
next
  case (Cons s ss)
  have "endpoint s \<notin> endpoint ` set (map fst (filter Q (attempts send payload (Suc n) ss)))"
    using Cons.prems kept_subset [of Q send payload "Suc n" ss] by auto
  with Cons show ?case by auto
qed

lemma dispatch_distinct:
  assumes "distinct (map endpoint subs)"
  shows "distinct (map endpoint (fst (snd (send_notification send now title body icon badge tag data subs))))"
proof (cases "subs = []")
  case True
  then show ?thesis by (simp add: send_notification_def)
next
  case False
  show ?thesis
    using kept_distinct [OF assms] by (simp add: registry_after_dispatch [OF False])
qed

lemma get_prop_append:
  "get_prop k (JObj (fs @ gs)) =
     (if k \<in> set (map fst fs) then get_prop k (JObj fs) else get_prop k (JObj gs))"
proof (cases "map_of fs k")
  case None
  then have "k \<notin> set (map fst fs)" by (simp add: map_of_eq_None_iff)
  with None show ?thesis by (simp add: map_add_def)
next
  case (Some v)
  then have "k \<in> set (map fst fs)" by (metis map_of_eq_None_iff option.distinct(1) set_map)
  with Some show ?thesis by (simp add: map_add_def)
qed

lemma fetch_example_env:
  "fetch (example_env True) payload = FetchReply True [(''id'', JStr ''n-1''), (''recipients'', JNum 1)]"
  by (simp add: example_env_def)

lemma attempts_append:
  "attempts send payload n (xs @ ys) =
     attempts send payload n xs @ attempts send payload (n + length xs) ys"
  by (induction xs arbitrary: n) auto

lemma shared_loop_log:
  "send_loop_shared fuel send other payload i st = Some st' \<Longrightarrow> log_agrees send payload st
     \<Longrightarrow> log_agrees send payload st'"
proof (induction fuel arbitrary: i st)
  case 0
  then show ?case by simp
next
  case (Suc fuel)
  show ?case
  proof (cases "i < length (subscriptions st)")
    case False
    with Suc.prems show ?thesis by simp
  next
    case True
    define sub where "sub = subscriptions st ! i"
    define n where "n = length (sent_to st)"
    show ?thesis
    proof (cases "send n sub payload")
      case (Delivered code)
      let ?st = "st\<lparr>sent_to := sent_to st @ [sub], subscriptions := other n (subscriptions st),
                     results := results st @ [success_result sub code],
                     successCount := successCount st + 1\<rparr>"
      have run: "send_loop_shared fuel send other payload (i + 1) ?st = Some st'"
        using Suc.prems(1) True Delivered by (simp add: Let_def sub_def n_def)
      have "log_agrees send payload ?st"
        using Suc.prems(2) Delivered
        by (simp add: log_agrees_def attempts_append n_def delivered_def result_of_def)
      with Suc.IH [OF run] show ?thesis .
    next
      case (Failed msg code)
      let ?st = "st\<lparr>sent_to := sent_to st @ [sub], subscriptions := other n (subscriptions st),
                     results := results st @ [failure_result sub msg code],
                     failureCount := failureCount st + 1\<rparr>"
      have ok: "log_agrees send payload ?st"
        using Suc.prems(2) Failed
        by (simp add: log_agrees_def attempts_append n_def delivered_def result_of_def)
      show ?thesis
      proof (cases "code = Some 410")
        case True410: True
        let ?st' = "?st\<lparr>subscriptions := take i (subscriptions ?st) @ drop (Suc i) (subscriptions ?st)\<rparr>"
        have run: "send_loop_shared fuel send other payload i ?st' = Some st'"
          using Suc.prems(1) True Failed True410 by (simp add: Let_def sub_def n_def)
        have "log_agrees send payload ?st'"
          using ok by (simp add: log_agrees_def)
        with Suc.IH [OF run] show ?thesis .
      next
        case False
        have run: "send_loop_shared fuel send other payload (i + 1) ?st = Some st'"
          using Suc.prems(1) True Failed False by (simp add: Let_def sub_def n_def)
        from Suc.IH [OF run ok] show ?thesis .
      qed
    qed
  qed
qed



lemma send_notification_shared_nonempty:
  assumes "subs \<noteq> []"
    and "send_notification_shared fuel send other now title body icon badge tag data subs
           = Some (resp, subs', sent)"
  shows "resp =
     (let as = attempts send (push_payload now title body icon badge tag data) 0 sent;
          rs = map result_of as;
          sc = length (filter (\<lambda>a. delivered (snd a)) as);
          fc = length (filter (\<lambda>a. \<not> delivered (snd a)) as)
      in (200, JObj [(''success'', JBool (0 < sc)),
                     (''message'', JStr (''Push sent to '' @ dec sc @ ''/'' @ dec (length rs)
                                         @ '' subscribers'')),
                     (''results'', JArr rs),
                     (''summary'', JObj [(''total'', jnat (length rs)),
                                         (''successful'', jnat sc),
                                         (''failed'', jnat fc)])]))"
proof -
  let ?p = "push_payload now title body icon badge tag data"
  let ?init = "\<lparr>subscriptions = subs, results = [], successCount = 0, failureCount = 0,
               sent_to = []\<rparr>"
  from assms obtain st where run: "send_loop_shared fuel send other ?p 0 ?init = Some st"
    and resp: "resp = (200, JObj [(''success'', JBool (successCount st > 0)),
                                  (''message'', JStr (''Push sent to '' @ dec (successCount st)
                                                      @ ''/'' @ dec (length (results st))
                                                      @ '' subscribers'')),
                                  (''results'', JArr (results st)),
                                  (''summary'', JObj [(''total'', jnat (length (results st))),
                                                      (''successful'', jnat (successCount st)),
                                                      (''failed'', jnat (failureCount st))])])"
    and sent: "sent = sent_to st"
    by (auto simp: send_notification_shared_def Let_def split: option.splits)
  have "log_agrees send ?p ?init" by (simp add: log_agrees_def)
  from shared_loop_log [OF run this] resp sent show ?thesis
    by (simp add: log_agrees_def Let_def)
qed

text \<open>On the shared registry too, a dispatch on the empty registry answers 400 at once,
  and a dispatch on a non-empty registry that ends answers 200 with a summary, without
  an error property, and with a success flag that says whether a send was delivered.\<close>

lemma shared_response_shape:
  "send_notification_shared fuel send other now title body icon badge tag data [] =
     Some ((400, JObj [(''error'', JStr ''No subscriptions available''),
                       (''hint'', JStr ''Make sure to subscribe first from the web app'')]),
           [], [])"
  "subs \<noteq> [] \<Longrightarrow>
     send_notification_shared fuel send other now title body icon badge tag data subs
       = Some (resp, subs', sent) \<Longrightarrow>
     fst resp = 200 \<and> has_prop ''summary'' (snd resp) \<and> \<not> has_prop ''error'' (snd resp)
     \<and> get_prop ''success'' (snd resp)
         = JBool (\<exists>k < length sent.
                    delivered (send k (sent ! k) (push_payload now title body icon badge tag data)))"
proof -
  show "send_notification_shared fuel send other now title body icon badge tag data [] =
     Some ((400, JObj [(''error'', JStr ''No subscriptions available''),
                       (''hint'', JStr ''Make sure to subscribe first from the web app'')]),
           [], [])"
    by (simp add: send_notification_shared_def)
next
  let ?p = "push_payload now title body icon badge tag data"
  assume ne: "subs \<noteq> []"
    and run: "send_notification_shared fuel send other now title body icon badge tag data subs
       = Some (resp, subs', sent)"
  have pos: "0 < length (filter (\<lambda>a. delivered (snd a)) (attempts send ?p 0 sent))
               \<longleftrightarrow> (\<exists>k < length sent. delivered (send k (sent ! k) ?p))"
    using attempts_ex [of send ?p sent delivered]
    by (simp add: length_pos_if_in_set filter_empty_conv)
  show "fst resp = 200 \<and> has_prop ''summary'' (snd resp) \<and> \<not> has_prop ''error'' (snd resp)
     \<and> get_prop ''success'' (snd resp)
         = JBool (\<exists>k < length sent. delivered (send k (sent ! k) ?p))"
    using pos by (simp add: send_notification_shared_nonempty [OF ne run] Let_def)
qed



lemma uninterrupted_gone_target_removed:
  "(subs \<noteq> [] \<longrightarrow>
      fst (snd (send_notification send now title body icon badge tag data subs)) =
        map fst (filter (\<lambda>a. \<not> gone (snd a))
                   (attempts send (push_payload now title body icon badge tag data) 0 subs)))
   \<and> (distinct (map endpoint subs) \<and> k < length subs
      \<and> send k (subs ! k) (push_payload now title body icon badge tag data) = Failed msg (Some 410)
     \<longrightarrow> subs ! k \<notin> set (fst (snd (send_notification send now title body icon badge tag data subs))))
   \<and> (endpoint A \<noteq> [] \<and> endpoint B \<noteq> [] \<and> endpoint A \<noteq> endpoint B
      \<and> send 0 A (push_payload now title body icon badge tag data) = Delivered code
      \<and> send 1 B (push_payload now title body icon badge tag data) = Failed msg (Some 410)
     \<longrightarrow> snd (subscribe (Some B) (snd (subscribe (Some A) []))) = [A, B]
         \<and> get_prop ''summary''
              (snd (fst (send_notification send now title body icon badge tag data [A, B])))
             = JObj [(''total'', jnat 2), (''successful'', jnat 1), (''failed'', jnat 1)]
         \<and> fst (snd (send_notification send now title body icon badge tag data [A, B])) = [A]
         \<and> get_prop ''count''
              (snd (list_subscriptions
                      (fst (snd (send_notification send now title body icon badge tag data [A, B])))))
             = jnat 1)"
proof (intro conjI impI)
  assume "subs \<noteq> []"
  then show "fst (snd (send_notification send now title body icon badge tag data subs)) =
        map fst (filter (\<lambda>a. \<not> gone (snd a))
                   (attempts send (push_payload now title body icon badge tag data) 0 subs))"
    by (rule registry_after_dispatch)
next
  let ?p = "push_payload now title body icon badge tag data"
  assume a: "distinct (map endpoint subs) \<and> k < length subs
      \<and> send k (subs ! k) ?p = Failed msg (Some 410)"
  then have ne: "subs \<noteq> []" by auto
  show "subs ! k \<notin> set (fst (snd (send_notification send now title body icon badge tag data subs)))"
  proof
    assume "subs ! k \<in> set (fst (snd (send_notification send now title body icon badge tag data subs)))"
    then obtain b where b: "b \<in> set (attempts send ?p 0 subs)" "\<not> gone (snd b)" "fst b = subs ! k"
      by (auto simp: registry_after_dispatch [OF ne])
    then obtain j where j: "j < length subs" "attempts send ?p 0 subs ! j = b"
      by (auto simp: in_set_conv_nth length_attempts)
    with nth_attempts [of j subs send ?p 0] have bj: "b = (subs ! j, send j (subs ! j) ?p)"
      by simp
    with b have "subs ! j = subs ! k" by simp
    then have "map endpoint subs ! j = map endpoint subs ! k"
      using j a by simp
    with a j have "j = k"
      by (simp add: nth_eq_iff_index_eq del: nth_map)
    with b bj a show False by (simp add: gone_def)
  qed
next
  let ?p = "push_payload now title body icon badge tag data"
  assume a: "endpoint A \<noteq> [] \<and> endpoint B \<noteq> [] \<and> endpoint A \<noteq> endpoint B
      \<and> send 0 A ?p = Delivered code \<and> send 1 B ?p = Failed msg (Some 410)"
  then show "snd (subscribe (Some B) (snd (subscribe (Some A) []))) = [A, B]"
    by (simp add: subscribe_def Let_def)
  have ne: "[A, B] \<noteq> []" by simp
  from a show "get_prop ''summary''
              (snd (fst (send_notification send now title body icon badge tag data [A, B])))
             = JObj [(''total'', jnat 2), (''successful'', jnat 1), (''failed'', jnat 1)]"
    by (simp add: send_notification_nonempty [OF ne] Let_def delivered_def gone_def jnat_def)
  from a show reg: "fst (snd (send_notification send now title body icon badge tag data [A, B])) = [A]"
    by (simp add: send_notification_nonempty [OF ne] Let_def delivered_def gone_def)
  show "get_prop ''count''
              (snd (list_subscriptions
                      (fst (snd (send_notification send now title body icon badge tag data [A, B])))))
             = jnat 1"
    by (simp add: reg list_subscriptions_def)
qed

section \<open>The claims\<close>




text \<open>
  C2. The handler is written to remove the record whose send was answered with 410,
  and in a run that nothing interrupts it does: from \<open>A\<close>, \<open>B\<close>, \<open>C\<close> with only \<open>B\<close>
  gone it leaves \<open>A\<close> and \<open>C\<close>. On the shared registry it removes whatever stands at
  the index it read before the send. With the registry \<open>A\<close>, \<open>B\<close>, \<open>C\<close>, when another
  dispatch removes \<open>A\<close> while the send to \<open>B\<close> is pending and that send is answered with
  410, the record removed is \<open>C\<close>: afterwards the registry holds \<open>B\<close>, the record that
  is gone, and no longer \<open>C\<close>, which was never reported as gone.
\<close>

theorem stale_index_keeps_gone_target:
  "send_notification_shared (Suc (Suc (Suc (Suc 0)))) example_only_B_gone example_other_dispatch 0
       None None None None None None [example_A, example_B, example_C]
     = Some ((200, JObj [(''success'', JBool True),
                         (''message'', JStr ''Push sent to 1/2 subscribers''),
                         (''results'',
                          JArr [success_result example_A 201,
                                failure_result example_B ''Received unexpected response code''
                                  (Some 410)]),
                         (''summary'', JObj [(''total'', jnat 2), (''successful'', jnat 1),
                                             (''failed'', jnat 1)])]),
             [example_B], [example_A, example_B])
   \<and> example_only_B_gone 1 example_B (push_payload 0 None None None None None None)
       = Failed ''Received unexpected response code'' (Some 410)
   \<and> example_B \<in> set [example_B]
   \<and> example_C \<notin> set [example_B]
   \<and> fst (snd (send_notification example_only_B_gone 0 None None None None None None
                  [example_A, example_B, example_C])) = [example_A, example_C]"
proof -
  have ne: "[example_A, example_B, example_C] \<noteq> []" by simp
  have run: "send_notification_shared (Suc (Suc (Suc (Suc 0)))) example_only_B_gone
       example_other_dispatch 0 None None None None None None [example_A, example_B, example_C]
     = Some ((200, JObj [(''success'', JBool True),
                         (''message'', JStr ''Push sent to 1/2 subscribers''),
                         (''results'',
                          JArr [success_result example_A 201,
                                failure_result example_B ''Received unexpected response code''
                                  (Some 410)]),
                         (''summary'', JObj [(''total'', jnat 2), (''successful'', jnat 1),
                                             (''failed'', jnat 1)])]),
             [example_B], [example_A, example_B])"
    by (simp add: send_notification_shared_def Let_def example_only_B_gone_def example_A_def
        example_B_def example_C_def example_other_dispatch_def dec.simps digit_chars jnat_def)
  have answer: "example_only_B_gone 1 example_B (push_payload 0 None None None None None None)
       = Failed ''Received unexpected response code'' (Some 410)"
    by (simp add: example_only_B_gone_def example_B_def)
  have differ: "example_C \<notin> set [example_B]"
    by (simp add: example_B_def example_C_def)
  have alone: "fst (snd (send_notification example_only_B_gone 0 None None None None None None
                  [example_A, example_B, example_C])) = [example_A, example_C]"
    by (subst registry_after_dispatch [OF ne])
       (simp add: gone_def example_only_B_gone_def example_A_def example_B_def example_C_def)
  from run answer differ alone show ?thesis by simp
qed

text \<open>
  C3. Subscribing a record with a non-empty endpoint always succeeds with status 200
  and reports the resulting number of records. If a record with that endpoint exists,
  the first such record is replaced and the number of records is unchanged; otherwise
  the record is appended and the number grows by exactly one.
\<close>

theorem subscribe_upsert:
  assumes "endpoint sub \<noteq> []"
  shows "\<exists>subs'.
     subscribe (Some sub) subs =
       ((200, JObj [(''success'', JBool True),
                    (''message'', JStr ''Subscription saved successfully''),
                    (''totalSubscriptions'', jnat (length subs'))]),
        subs')
     \<and> (if \<exists>s \<in> set subs. endpoint s = endpoint sub
        then length subs' = length subs
             \<and> (\<exists>k < length subs. endpoint (subs ! k) = endpoint sub
                   \<and> (\<forall>j < k. endpoint (subs ! j) \<noteq> endpoint sub)
                   \<and> subs' = subs[k := sub])
        else length subs' = length subs + 1 \<and> subs' = subs @ [sub])"
proof (cases "\<exists>s \<in> set subs. endpoint s = endpoint sub")
  case True
  let ?k = "nat (findIndex (\<lambda>s. endpoint s = endpoint sub) subs)"
  have k: "?k < length subs" "endpoint (subs ! ?k) = endpoint sub"
    "\<forall>j < ?k. endpoint (subs ! j) \<noteq> endpoint sub"
    using findIndex_some [OF True] by auto
  show ?thesis
    using True k subscribe_existing [OF assms True] by auto
next
  case False
  then have "\<forall>s \<in> set subs. endpoint s \<noteq> endpoint sub" by simp
  from subscribe_fresh [OF assms this] False show ?thesis by auto
qed

theorem subscribe_upsert_witness:
  "endpoint example_B \<noteq> []
   \<and> snd (subscribe (Some example_B) [example_A]) = [example_A, example_B]
   \<and> snd (subscribe (Some (example_A\<lparr>keys := None\<rparr>)) [example_A, example_B])
       = [example_A\<lparr>keys := None\<rparr>, example_B]"
proof -
  have h: "endpoint example_B \<noteq> []" "endpoint (example_A\<lparr>keys := None\<rparr>) \<noteq> []"
    by (simp_all add: example_A_def example_B_def)
  have k: "k < Suc (Suc 0) \<longleftrightarrow> k = 0 \<or> k = Suc 0" for k by auto
  show ?thesis
    using h subscribe_upsert [OF h(1), of "[example_A]"]
      subscribe_upsert [OF h(2), of "[example_A, example_B]"]
    by (auto simp: example_A_def example_B_def k)
qed

text \<open>
  C4. A dispatch on the empty registry answers with status 400 and the error
  \<open>No subscriptions available\<close>, without a single call of the transport. A dispatch on
  a non-empty registry answers with status 200 and a summary and no error property,
  also when every send fails, and calls the transport for every target: the two
  answers cannot be confused.
\<close>

theorem no_subscribers_fails_fast:
  "send_notification send now title body icon badge tag data [] =
     ((400, JObj [(''error'', JStr ''No subscriptions available''),
                  (''hint'', JStr ''Make sure to subscribe first from the web app'')]),
      [], [])
   \<and> (subs \<noteq> [] \<longrightarrow>
        fst (fst (send_notification send now title body icon badge tag data subs)) = 200
        \<and> has_prop ''summary'' (snd (fst (send_notification send now title body icon badge tag data subs)))
        \<and> \<not> has_prop ''error'' (snd (fst (send_notification send now title body icon badge tag data subs)))
        \<and> snd (snd (send_notification send now title body icon badge tag data subs)) = subs)"
proof (intro conjI impI)
  show "send_notification send now title body icon badge tag data [] =
     ((400, JObj [(''error'', JStr ''No subscriptions available''),
                  (''hint'', JStr ''Make sure to subscribe first from the web app'')]),
      [], [])"
    by (simp add: send_notification_def)
next
  assume ne: "subs \<noteq> []"
  note eq = send_notification_nonempty [OF ne, of send now title body icon badge tag data]
  show "fst (fst (send_notification send now title body icon badge tag data subs)) = 200"
    by (simp add: eq Let_def)
  show "has_prop ''summary'' (snd (fst (send_notification send now title body icon badge tag data subs)))"
    by (simp add: eq Let_def)
  show "\<not> has_prop ''error'' (snd (fst (send_notification send now title body icon badge tag data subs)))"
    by (simp add: eq Let_def)
  show "snd (snd (send_notification send now title body icon badge tag data subs)) = subs"
    by (simp add: eq Let_def)
qed

theorem no_subscribers_fails_fast_witness:
  "[example_A] \<noteq> []
   \<and> send_notification example_transport 0 None None None None None None [] =
       ((400, JObj [(''error'', JStr ''No subscriptions available''),
                    (''hint'', JStr ''Make sure to subscribe first from the web app'')]),
        [], [])
   \<and> fst (fst (send_notification example_transport 0 None None None None None None [example_A])) = 200
   \<and> snd (snd (send_notification example_transport 0 None None None None None None [example_A]))
       = [example_A]"
proof -
  have h: "[example_A] \<noteq> []" by simp
  from h no_subscribers_fails_fast [of example_transport 0 None None None None None None "[example_A]"]
  show ?thesis by blast
qed

text \<open>
  C5, as amended. Below confidence 75 the handler answers \<open>notified: false\<close> and posts
  nothing. From 75 on it builds one request and posts it: the data of the request carry
  symbol, price, action, confidence, stop-loss and take-profit, its title the action
  and the symbol, its text the symbol, price, confidence, stop-loss and take-profit.
  The answer is then never \<open>notified: false\<close>. It is \<open>notified: true\<close> with status 200 when the vendor accepts the
  request, and status 500 without a \<open>notified\<close> property otherwise.
\<close>

theorem trading_signal_rule:
  "(confidence < 75 \<longrightarrow>
      trading_signal env symbol price action confidence stopLoss takeProfit userId =
        ((200, JObj [(''success'', JBool True),
                     (''message'', JStr ''Signal received but confidence too low for notification''),
                     (''notified'', JBool False)]),
         []))
   \<and> (75 \<le> confidence \<longrightarrow>
        (\<exists>payload.
           snd (trading_signal env symbol price action confidence stopLoss takeProfit userId) = [payload]
           \<and> get_prop ''signal'' (get_prop ''data'' payload) =
               JObj [(''symbol'', JStr symbol), (''price'', JNum price), (''action'', JStr action),
                     (''confidence'', JNum confidence), (''stopLoss'', JNum stopLoss),
                     (''takeProfit'', JNum takeProfit), (''timestamp'', jnat (date_now env))]
           \<and> get_prop ''en'' (get_prop ''headings'' payload) =
               JStr (bullseye @ '' '' @ toUpperCase action @ '' Signal: '' @ symbol)
           \<and> get_prop ''en'' (get_prop ''contents'' payload) =
               JStr (symbol @ '' at $'' @ number_text env price
                     @ '' | Confidence: '' @ number_text env confidence
                     @ ''% | SL: $'' @ number_text env stopLoss
                     @ '' | TP: $'' @ number_text env takeProfit)
           \<and> get_prop ''notified''
                (snd (fst (trading_signal env symbol price action confidence stopLoss takeProfit userId)))
               \<noteq> JBool False
           \<and> (\<forall>result. fetch env payload = FetchReply True result \<longrightarrow>
                 fst (fst (trading_signal env symbol price action confidence stopLoss takeProfit userId)) = 200
                 \<and> get_prop ''notified''
                      (snd (fst (trading_signal env symbol price action confidence stopLoss takeProfit userId)))
                     = JBool True)
           \<and> ((\<forall>result. fetch env payload \<noteq> FetchReply True result) \<longrightarrow>
                 fst (fst (trading_signal env symbol price action confidence stopLoss takeProfit userId)) = 500
                 \<and> \<not> has_prop ''notified''
                      (snd (fst (trading_signal env symbol price action confidence stopLoss takeProfit userId))))))"
proof (intro conjI impI)
  assume "confidence < 75"
  then show "trading_signal env symbol price action confidence stopLoss takeProfit userId =
        ((200, JObj [(''success'', JBool True),
                     (''message'', JStr ''Signal received but confidence too low for notification''),
                     (''notified'', JBool False)]),
         [])"
    by (simp add: trading_signal_def)
next
  assume c: "75 \<le> confidence"
  show "\<exists>payload.
           snd (trading_signal env symbol price action confidence stopLoss takeProfit userId) = [payload]
           \<and> get_prop ''signal'' (get_prop ''data'' payload) =
               JObj [(''symbol'', JStr symbol), (''price'', JNum price), (''action'', JStr action),
                     (''confidence'', JNum confidence), (''stopLoss'', JNum stopLoss),
                     (''takeProfit'', JNum takeProfit), (''timestamp'', jnat (date_now env))]
           \<and> get_prop ''en'' (get_prop ''headings'' payload) =
               JStr (bullseye @ '' '' @ toUpperCase action @ '' Signal: '' @ symbol)
           \<and> get_prop ''en'' (get_prop ''contents'' payload) =
               JStr (symbol @ '' at $'' @ number_text env price
                     @ '' | Confidence: '' @ number_text env confidence
                     @ ''% | SL: $'' @ number_text env stopLoss
                     @ '' | TP: $'' @ number_text env takeProfit)
           \<and> get_prop ''notified''
                (snd (fst (trading_signal env symbol price action confidence stopLoss takeProfit userId)))
               \<noteq> JBool False
           \<and> (\<forall>result. fetch env payload = FetchReply True result \<longrightarrow>
                 fst (fst (trading_signal env symbol price action confidence stopLoss takeProfit userId)) = 200
                 \<and> get_prop ''notified''
                      (snd (fst (trading_signal env symbol price action confidence stopLoss takeProfit userId)))
                     = JBool True)
           \<and> ((\<forall>result. fetch env payload \<noteq> FetchReply True result) \<longrightarrow>
                 fst (fst (trading_signal env symbol price action confidence stopLoss takeProfit userId)) = 500
                 \<and> \<not> has_prop ''notified''
                      (snd (fst (trading_signal env symbol price action confidence stopLoss takeProfit userId))))"
    using c
    by (auto simp: trading_signal_def Let_def post_notification_def get_prop_append
             split: sum.splits fetch_outcome.splits)
qed

theorem trading_signal_rule_witness:
  "(74 :: rat) < 75
   \<and> trading_signal (example_env True) ''BTCUSD'' 50000 ''buy'' 74 49000 52000 None =
        ((200, JObj [(''success'', JBool True),
                     (''message'', JStr ''Signal received but confidence too low for notification''),
                     (''notified'', JBool False)]),
         [])
   \<and> (75 :: rat) \<le> 75
   \<and> get_prop ''notified''
        (snd (fst (trading_signal (example_env True) ''BTCUSD'' 50000 ''buy'' 75 49000 52000 None)))
       = JBool True"
proof -
  have h1: "(74 :: rat) < 75" and h2: "(75 :: rat) \<le> 75" by simp_all
  from h1 trading_signal_rule [of 74 "example_env True" "''BTCUSD''" 50000 "''buy''" 49000 52000 None]
  have low: "trading_signal (example_env True) ''BTCUSD'' 50000 ''buy'' 74 49000 52000 None =
        ((200, JObj [(''success'', JBool True),
                     (''message'', JStr ''Signal received but confidence too low for notification''),
                     (''notified'', JBool False)]),
         [])"
    by blast
  from h2 trading_signal_rule [of 75 "example_env True" "''BTCUSD''" 50000 "''buy''" 49000 52000 None]
  have high: "get_prop ''notified''
        (snd (fst (trading_signal (example_env True) ''BTCUSD'' 50000 ''buy'' 75 49000 52000 None)))
       = JBool True"
    using fetch_example_env by blast
  from h1 h2 low high show ?thesis by blast
qed

text \<open>
  C5, as stated, fails: at confidence 80 with a vendor that refuses the request, one
  request is posted and the answer has status 500 and no \<open>notified: true\<close>.
\<close>

theorem trading_signal_vendor_refusal:
  "(75 :: rat) \<le> 80
   \<and> fst (trading_signal (example_env False) ''BTCUSD'' 50000 ''buy'' 80 49000 52000 None)
       = (500, JObj [(''error'', JStr ''Trading signal notification failed''),
                     (''message'',
                      JStr ''OneSignal API error: All included players are not subscribed'')])
   \<and> length (snd (trading_signal (example_env False) ''BTCUSD'' 50000 ''buy'' 80 49000 52000 None)) = 1
   \<and> get_prop ''notified''
        (snd (fst (trading_signal (example_env False) ''BTCUSD'' 50000 ''buy'' 80 49000 52000 None)))
       \<noteq> JBool True"
  by (simp add: trading_signal_def example_env_def post_notification_def Let_def)

text \<open>
  C6. The alert triggers if and only if the type is \<open>above\<close> and the current price is
  at least the target, or the type is \<open>below\<close> and the current price is at most the
  target. Both comparisons are inclusive: \<open>above\<close> with current 100 and target 100
  triggers, with current 99 it does not. A check that does not trigger answers
  \<open>notified: false\<close> and posts nothing; one that triggers posts one request describing
  the crossing and never answers \<open>notified: false\<close>.
\<close>

theorem price_alert_rule:
  "fst (alert_check env symbol currentPrice targetPrice alertType)
     = (alertType = ''above'' \<and> currentPrice \<ge> targetPrice
        \<or> alertType = ''below'' \<and> currentPrice \<le> targetPrice)
   \<and> fst (alert_check env symbol 100 100 ''above'')
   \<and> \<not> fst (alert_check env symbol 99 100 ''above'')
   \<and> (\<not> fst (alert_check env symbol currentPrice targetPrice alertType) \<longrightarrow>
        price_alert env symbol currentPrice targetPrice alertType userId =
          ((200, JObj [(''success'', JBool True),
                       (''message'', JStr ''Price checked but alert conditions not met''),
                       (''notified'', JBool False),
                       (''currentPrice'', JNum currentPrice),
                       (''targetPrice'', JNum targetPrice)]),
           []))
   \<and> (fst (alert_check env symbol currentPrice targetPrice alertType) \<longrightarrow>
        (\<exists>payload. snd (price_alert env symbol currentPrice targetPrice alertType userId) = [payload]
           \<and> get_prop ''en'' (get_prop ''contents'' payload)
               = JStr (snd (alert_check env symbol currentPrice targetPrice alertType)))
        \<and> get_prop ''notified''
             (snd (fst (price_alert env symbol currentPrice targetPrice alertType userId)))
            \<noteq> JBool False)"
proof (intro conjI impI)
  show "fst (alert_check env symbol currentPrice targetPrice alertType)
     = (alertType = ''above'' \<and> currentPrice \<ge> targetPrice
        \<or> alertType = ''below'' \<and> currentPrice \<le> targetPrice)"
    by (simp add: alert_check_def)
  show "fst (alert_check env symbol 100 100 ''above'')"
    by (simp add: alert_check_def)
  show "\<not> fst (alert_check env symbol 99 100 ''above'')"
    by (simp add: alert_check_def)
next
  assume "\<not> fst (alert_check env symbol currentPrice targetPrice alertType)"
  then show "price_alert env symbol currentPrice targetPrice alertType userId =
          ((200, JObj [(''success'', JBool True),
                       (''message'', JStr ''Price checked but alert conditions not met''),
                       (''notified'', JBool False),
                       (''currentPrice'', JNum currentPrice),
                       (''targetPrice'', JNum targetPrice)]),
           [])"
    by (cases "alert_check env symbol currentPrice targetPrice alertType")
       (simp add: price_alert_def)
next
  assume t: "fst (alert_check env symbol currentPrice targetPrice alertType)"
  then show "\<exists>payload. snd (price_alert env symbol currentPrice targetPrice alertType userId) = [payload]
           \<and> get_prop ''en'' (get_prop ''contents'' payload)
               = JStr (snd (alert_check env symbol currentPrice targetPrice alertType))"
    by (cases "alert_check env symbol currentPrice targetPrice alertType")
       (auto simp: price_alert_def Let_def get_prop_append split: sum.splits)
  from t show "get_prop ''notified''
             (snd (fst (price_alert env symbol currentPrice targetPrice alertType userId)))
            \<noteq> JBool False"
    by (cases "alert_check env symbol currentPrice targetPrice alertType")
       (auto simp: price_alert_def Let_def split: sum.splits)
qed

theorem price_alert_rule_witness:
  "\<not> fst (alert_check (example_env True) ''ETHUSD'' 99 100 ''above'')
   \<and> price_alert (example_env True) ''ETHUSD'' 99 100 ''above'' None =
          ((200, JObj [(''success'', JBool True),
                       (''message'', JStr ''Price checked but alert conditions not met''),
                       (''notified'', JBool False),
                       (''currentPrice'', JNum 99),
                       (''targetPrice'', JNum 100)]),
           [])
   \<and> fst (alert_check (example_env True) ''ETHUSD'' 100 100 ''above'')
   \<and> get_prop ''notified'' (snd (fst (price_alert (example_env True) ''ETHUSD'' 100 100 ''above'' None)))
       \<noteq> JBool False"
proof -
  note t1 = price_alert_rule [of "example_env True" "''ETHUSD''" 99 100 "''above''" None]
  note t2 = price_alert_rule [of "example_env True" "''ETHUSD''" 100 100 "''above''" None]
  from t1 t2 show ?thesis by blast
qed

text \<open>
  C7. With severity \<open>low\<close> the handler answers \<open>notified: false\<close> and posts nothing.
  With any other severity (an absent one counts as \<open>normal\<close>) it posts one request and
  never answers \<open>notified: false\<close>. The title of the request starts with the police
  light for severity \<open>high\<close> and with the bar chart for every other severity, and the
  two pictograms differ.
\<close>

theorem market_event_rule:
  "((case severity of None \<Rightarrow> ''normal'' | Some s \<Rightarrow> s) = ''low'' \<longrightarrow>
      market_event env eventType title message severity userId =
        ((200, JObj [(''success'', JBool True),
                     (''message'', JStr ''Event received but severity too low for notification''),
                     (''notified'', JBool False)]),
         []))
   \<and> ((case severity of None \<Rightarrow> ''normal'' | Some s \<Rightarrow> s) \<noteq> ''low'' \<longrightarrow>
        (\<exists>payload. snd (market_event env eventType title message severity userId) = [payload]
           \<and> get_prop ''en'' (get_prop ''headings'' payload)
               = JStr ((if severity = Some ''high'' then police_light else bar_chart) @ '' ''
                       @ or_default title (chart_up @ '' Market Event: '' @ eventType)))
        \<and> get_prop ''notified''
             (snd (fst (market_event env eventType title message severity userId)))
            \<noteq> JBool False)
   \<and> police_light \<noteq> bar_chart"
proof (intro conjI impI)
  assume "(case severity of None \<Rightarrow> ''normal'' | Some s \<Rightarrow> s) = ''low''"
  then show "market_event env eventType title message severity userId =
        ((200, JObj [(''success'', JBool True),
                     (''message'', JStr ''Event received but severity too low for notification''),
                     (''notified'', JBool False)]),
         [])"
    by (simp add: market_event_def)
next
  assume n: "(case severity of None \<Rightarrow> ''normal'' | Some s \<Rightarrow> s) \<noteq> ''low''"
  then show "\<exists>payload. snd (market_event env eventType title message severity userId) = [payload]
           \<and> get_prop ''en'' (get_prop ''headings'' payload)
               = JStr ((if severity = Some ''high'' then police_light else bar_chart) @ '' ''
                       @ or_default title (chart_up @ '' Market Event: '' @ eventType))"
    by (auto simp: market_event_def Let_def get_prop_append split: option.splits sum.splits)
  from n show "get_prop ''notified''
             (snd (fst (market_event env eventType title message severity userId)))
            \<noteq> JBool False"
    by (auto simp: market_event_def Let_def split: option.splits sum.splits)
next
  show "police_light \<noteq> bar_chart"
    by (simp add: police_light_def bar_chart_def)
qed

theorem market_event_rule_witness:
  "(case Some ''low'' of None \<Rightarrow> ''normal'' | Some s \<Rightarrow> s) = ''low''
   \<and> market_event (example_env True) ''FOMC'' None ''Rates unchanged'' (Some ''low'') None =
        ((200, JObj [(''success'', JBool True),
                     (''message'', JStr ''Event received but severity too low for notification''),
                     (''notified'', JBool False)]),
         [])
   \<and> (case Some ''high'' of None \<Rightarrow> ''normal'' | Some s \<Rightarrow> s) \<noteq> ''low''
   \<and> (\<exists>payload. snd (market_event (example_env True) ''FOMC'' None ''Rates unchanged'' (Some ''high'') None)
                   = [payload]
         \<and> get_prop ''en'' (get_prop ''headings'' payload)
             = JStr (police_light @ '' '' @ chart_up @ '' Market Event: FOMC''))"
proof -
  have h1: "(case Some ''low'' of None \<Rightarrow> ''normal'' | Some s \<Rightarrow> s) = ''low''" by simp
  have h2: "(case Some ''high'' of None \<Rightarrow> ''normal'' | Some s \<Rightarrow> s) \<noteq> ''low''" by simp
  note t1 = market_event_rule [of "Some ''low''" "example_env True" "''FOMC''" None "''Rates unchanged''" None]
  note t2 = market_event_rule [of "Some ''high''" "example_env True" "''FOMC''" None "''Rates unchanged''" None]
  from h1 t1 have low: "market_event (example_env True) ''FOMC'' None ''Rates unchanged'' (Some ''low'') None =
        ((200, JObj [(''success'', JBool True),
                     (''message'', JStr ''Event received but severity too low for notification''),
                     (''notified'', JBool False)]),
         [])"
    by blast
  from h2 t2 have high: "\<exists>payload. snd (market_event (example_env True) ''FOMC'' None ''Rates unchanged'' (Some ''high'') None)
                   = [payload]
         \<and> get_prop ''en'' (get_prop ''headings'' payload)
             = JStr (police_light @ '' '' @ chart_up @ '' Market Event: FOMC'')"
    by (simp add: or_default_def)
  from h1 h2 low high show ?thesis by blast
qed

text \<open>
  C8, as amended. Clearing empties the registry, so that the listing counts zero
  records. The answer has status 200 and exactly two properties: \<open>success: true\<close> and
  a message with the number of records removed.
\<close>

theorem clear_all_response:
  "snd (clear_subscriptions subs) = []
   \<and> fst (list_subscriptions (snd (clear_subscriptions subs))) = 200
   \<and> get_prop ''count'' (snd (list_subscriptions (snd (clear_subscriptions subs)))) = jnat 0
   \<and> fst (clear_subscriptions subs) =
       (200, JObj [(''success'', JBool True),
                   (''message'', JStr (''Cleared '' @ dec (length subs) @ '' subscriptions''))])"
  by (simp add: clear_subscriptions_def list_subscriptions_def)

text \<open>
  C8, as stated, fails: the answer to clearing two records has no property
  \<open>clearedCount\<close>.
\<close>

theorem clear_all_no_clearedCount:
  "\<not> has_prop ''clearedCount'' (snd (fst (clear_subscriptions [example_A, example_B])))
   \<and> snd (fst (clear_subscriptions [example_A, example_B])) =
       JObj [(''success'', JBool True), (''message'', JStr ''Cleared 2 subscriptions'')]"
  by (simp add: clear_subscriptions_def dec.simps digit_chars)

text \<open>
  C9. Whenever the returned status carries a user id, it reports the user as
  subscribed. In particular, when the SDK is present, the permission could be read, a
  user id was obtained and the read of the subscription flag failed or gave
  \<open>false\<close>, the status has \<open>isSubscribed = true\<close> together with that user id.
\<close>

theorem status_override:
  "(truthy_id (userId_field (getOneSignalStatus window_OneSignal Notification_permission))
      \<longrightarrow> isSubscribed (getOneSignalStatus window_OneSignal Notification_permission))
   \<and> (window_OneSignal = Some sdk
       \<and> ((\<exists>p. getNotificationPermission sdk = Returns p) \<or> (\<exists>p. Notification_permission = Some p))
       \<and> truthy_id (read_userId sdk) \<and> \<not> read_isSubscribed sdk
      \<longrightarrow> isSubscribed (getOneSignalStatus window_OneSignal Notification_permission)
          \<and> userId_field (getOneSignalStatus window_OneSignal Notification_permission)
              = read_userId sdk)"
  by (auto simp: getOneSignalStatus_def status_unavailable_def truthy_id_def Let_def
           split: option.splits call.splits)

theorem status_override_witness:
  "(Some example_sdk = Some example_sdk
       \<and> ((\<exists>p. getNotificationPermission example_sdk = Returns p)
           \<or> (\<exists>p. (None :: string option) = Some p))
       \<and> truthy_id (read_userId example_sdk) \<and> \<not> read_isSubscribed example_sdk)
   \<and> truthy_id (userId_field (getOneSignalStatus (Some example_sdk) None))
   \<and> isSubscribed (getOneSignalStatus (Some example_sdk) None)
   \<and> userId_field (getOneSignalStatus (Some example_sdk) None) = Some ''0b1c2d3e''"
proof -
  have h: "Some example_sdk = Some example_sdk
       \<and> ((\<exists>p. getNotificationPermission example_sdk = Returns p)
           \<or> (\<exists>p. (None :: string option) = Some p))
       \<and> truthy_id (read_userId example_sdk) \<and> \<not> read_isSubscribed example_sdk"
    by (simp add: example_sdk_def read_userId_def read_isSubscribed_def legacy_userId_def
        legacy_enabled_def truthy_id_def)
  have r: "read_userId example_sdk = Some ''0b1c2d3e''"
    by (simp add: example_sdk_def read_userId_def legacy_userId_def)
  from h r status_override [of "Some example_sdk" None example_sdk] show ?thesis
    by (simp add: truthy_id_def)
qed

text \<open>
  C10. For a dispatch on a non-empty registry the \<open>success\<close> flag of the answer is
  true if and only if the send to at least one target was delivered. When every send
  fails the dispatch still answers with status 200, \<open>success: false\<close> and the exact
  counts: no success and one failure for every target.
\<close>

theorem success_flag_iff_one_delivered:
  assumes "subs \<noteq> []"
  shows "get_prop ''success'' (snd (fst (send_notification send now title body icon badge tag data subs)))
           = JBool (\<exists>k < length subs.
                      delivered (send k (subs ! k) (push_payload now title body icon badge tag data)))
     \<and> ((\<forall>k < length subs.
            \<not> delivered (send k (subs ! k) (push_payload now title body icon badge tag data)))
         \<longrightarrow> fst (fst (send_notification send now title body icon badge tag data subs)) = 200
             \<and> get_prop ''success''
                  (snd (fst (send_notification send now title body icon badge tag data subs)))
                 = JBool False
             \<and> get_prop ''summary''
                  (snd (fst (send_notification send now title body icon badge tag data subs)))
                 = JObj [(''total'', jnat (length subs)), (''successful'', jnat 0),
                         (''failed'', jnat (length subs))])"
proof -
  let ?p = "push_payload now title body icon badge tag data"
  let ?as = "attempts send ?p 0 subs"
  note eq = send_notification_nonempty [OF assms, of send now title body icon badge tag data]
  have pos: "0 < length (filter (\<lambda>a. delivered (snd a)) ?as)
               \<longleftrightarrow> (\<exists>k < length subs. delivered (send k (subs ! k) ?p))"
    using attempts_ex [of send ?p subs delivered] by (simp add: length_pos_if_in_set filter_empty_conv)
  have first: "get_prop ''success'' (snd (fst (send_notification send now title body icon badge tag data subs)))
           = JBool (\<exists>k < length subs. delivered (send k (subs ! k) ?p))"
    using pos by (simp add: eq Let_def)
  have second: "fst (fst (send_notification send now title body icon badge tag data subs)) = 200
             \<and> get_prop ''success''
                  (snd (fst (send_notification send now title body icon badge tag data subs)))
                 = JBool False
             \<and> get_prop ''summary''
                  (snd (fst (send_notification send now title body icon badge tag data subs)))
                 = JObj [(''total'', jnat (length subs)), (''successful'', jnat 0),
                         (''failed'', jnat (length subs))]"
    if none: "\<forall>k < length subs. \<not> delivered (send k (subs ! k) ?p)"
  proof -
    from none have "\<forall>a \<in> set ?as. \<not> delivered (snd a)"
      using attempts_ex [of send ?p subs delivered] by blast
    then have f: "filter (\<lambda>a. delivered (snd a)) ?as = []" "filter (\<lambda>a. \<not> delivered (snd a)) ?as = ?as"
      by (simp_all add: filter_empty_conv)
    show ?thesis
      by (simp add: eq Let_def f length_attempts)
  qed
  from first second show ?thesis by blast
qed

theorem success_flag_iff_one_delivered_witness:
  "[example_B] \<noteq> []
   \<and> \<not> delivered (example_transport 0 example_B (push_payload 0 None None None None None None))
   \<and> fst (fst (send_notification example_transport 0 None None None None None None [example_B])) = 200
   \<and> get_prop ''success''
        (snd (fst (send_notification example_transport 0 None None None None None None [example_B])))
       = JBool False
   \<and> get_prop ''summary''
        (snd (fst (send_notification example_transport 0 None None None None None None [example_B])))
       = JObj [(''total'', jnat 1), (''successful'', jnat 0), (''failed'', jnat 1)]"
proof -
  have h: "[example_B] \<noteq> []" by simp
  have f: "\<forall>k < length [example_B].
         \<not> delivered (example_transport k ([example_B] ! k) (push_payload 0 None None None None None None))"
    by (simp add: example_transport_def example_B_def delivered_def)
  have g: "\<not> delivered (example_transport 0 example_B (push_payload 0 None None None None None None))"
    by (simp add: example_transport_def example_B_def delivered_def)
  from f g success_flag_iff_one_delivered [OF h, of example_transport 0 None None None None None None]
  show ?thesis by simp
qed

end
